theory Spec2Isabelle
  imports Main "HOL-Library.Multiset"
begin

section \<open>Go values behind an interface\<close>

text \<open>
  The package \<^verbatim>\<open>nice\<close> (file \<^verbatim>\<open>nice.go\<close>) inspects values of static type \<^verbatim>\<open>any\<close>:
  it asks whether the dynamic type has the method \<^verbatim>\<open>Error() string\<close>, whether the value
  is a \<^verbatim>\<open>reflect.Type\<close>, what \<^verbatim>\<open>reflect.TypeOf\<close> returns for it, and whether two values
  are \<^verbatim>\<open>==\<close>. The model keeps exactly what those four questions read.

  A concrete (non-interface) Go type is identified by its descriptor; the descriptor
  records the two properties of the type the package depends on: whether its method set
  satisfies \<^verbatim>\<open>error\<close>, and whether the language lets its values be compared
  (slices, maps, functions and what is built from them are not comparable).
\<close>

datatype ctype = CType (type_name: string) (has_Error: bool) (comparable: bool)

text \<open>
  What \<^verbatim>\<open>reflect.Type\<close> describes: an interface type (never the dynamic type of a value)
  or a concrete type. \<^verbatim>\<open>reflect.Type\<close> has unexported methods; its implementation is
  reflect's own canonical descriptor pointer, so two descriptors are \<^verbatim>\<open>==\<close> exactly when
  they describe the same type, and comparing them never panics.
\<close>

datatype rtype = Interface string | Concrete ctype

text \<open>\<^verbatim>\<open>reflect.TypeFor[error]()\<close>\<close>

definition typeOfError :: rtype where
  "typeOfError = Interface ''error''"

text \<open>
  The dynamic value: a scalar, a string, a pointer (its address, and the pointee carried
  along so that methods can read it), or the elements of an array, slice or struct.
  Floating-point contents are not modelled.
\<close>

datatype data = Scalar int | Text string | Pointer nat data | Elems "data list"

text \<open>
  A value of type \<^verbatim>\<open>any\<close>: the nil interface, a \<^verbatim>\<open>reflect.Type\<close> (dynamic type
  \<^verbatim>\<open>*reflect.rtype\<close>), or a value of any other concrete type.
\<close>

datatype any = NilIface | Descriptor rtype | Val ctype data

definition rtype_ptr :: ctype where
  "rtype_ptr = CType ''*reflect.rtype'' False True"

text \<open>The type assertion \<^verbatim>\<open>t.(error)\<close> in its comma-ok form, and the \<^verbatim>\<open>case error\<close> of a type switch.\<close>

fun is_error :: "any \<Rightarrow> bool" where
  "is_error (Val c d) = has_Error c"
| "is_error (Descriptor t) = False"
| "is_error NilIface = False"

text \<open>The type assertion \<^verbatim>\<open>t.(reflect.Type)\<close> in its comma-ok form.\<close>

fun as_Type :: "any \<Rightarrow> rtype option" where
  "as_Type (Descriptor t) = Some t"
| "as_Type (Val c d) = None"
| "as_Type NilIface = None"

text \<open>\<^verbatim>\<open>reflect.TypeOf\<close>: the nil \<^verbatim>\<open>reflect.Type\<close> for the nil interface.\<close>

fun TypeOf :: "any \<Rightarrow> rtype option" where
  "TypeOf NilIface = None"
| "TypeOf (Descriptor t) = Some (Concrete rtype_ptr)"
| "TypeOf (Val c d) = Some (Concrete c)"

subsection \<open>Equality of interface values\<close>

text \<open>
  \<^verbatim>\<open>==\<close> on two values of one comparable type: scalars and strings by content, pointers
  by address alone, elements position by position.
\<close>

fun data_eq :: "data \<Rightarrow> data \<Rightarrow> bool" where
  "data_eq (Scalar a) (Scalar b) = (a = b)"
| "data_eq (Text a) (Text b) = (a = b)"
| "data_eq (Pointer a p) (Pointer b q) = (a = b)"
| "data_eq (Elems xs) (Elems ys) = list_all2 data_eq xs ys"
| "data_eq d d' = False"

text \<open>
  The value the Go runtime panics with when \<^verbatim>\<open>==\<close> meets two interface values of one
  dynamic type that is not comparable: a \<^verbatim>\<open>runtime.errorString\<close>, itself an error.
\<close>

definition runtime_errorString :: ctype where
  "runtime_errorString = CType ''runtime.errorString'' True True"

definition uncomparable :: "ctype \<Rightarrow> any" where
  "uncomparable c = Val runtime_errorString (Text (''comparing uncomparable type '' @ type_name c))"

text \<open>
  \<^verbatim>\<open>x == y\<close> on interface values (\<open>Inl\<close>: the comparison panics). Values of different
  dynamic types are unequal; values of one dynamic type are compared by content when the
  type is comparable, and the comparison panics when it is not.
\<close>

fun iface_eq :: "any \<Rightarrow> any \<Rightarrow> any + bool" where
  "iface_eq (Val c d) (Val c' d') =
     (if c \<noteq> c' then Inr False
      else if comparable c then Inr (data_eq d d')
      else Inl (uncomparable c))"
| "iface_eq (Descriptor t) (Descriptor t') = Inr (t = t')"
| "iface_eq NilIface NilIface = Inr True"
| "iface_eq x y = Inr False"

subsection \<open>Slices\<close>

text \<open>A slice is nil (\<open>None\<close>) or holds its elements; \<^verbatim>\<open>make([]T, 0)\<close> is empty and not nil.\<close>

type_synonym 'a slice = "'a list option"

definition make0 :: "'a slice" where
  "make0 = Some []"

fun elems :: "'a slice \<Rightarrow> 'a list" where
  "elems None = []"
| "elems (Some xs) = xs"

definition append_elem :: "'a slice \<Rightarrow> 'a \<Rightarrow> 'a slice" where
  "append_elem s x = Some (elems s @ [x])"

text \<open>
  \<^verbatim>\<open>slices.Contains\<close> at \<^verbatim>\<open>reflect.Type\<close>: the comparison is the identity of descriptors.
\<close>

definition Contains_Type :: "rtype slice \<Rightarrow> rtype \<Rightarrow> bool" where
  "Contains_Type s v = (v \<in> set (elems s))"

text \<open>
  \<^verbatim>\<open>slices.Contains\<close> at \<^verbatim>\<open>error\<close>: the loop of \<^verbatim>\<open>slices.Index\<close> evaluates
  \<^verbatim>\<open>v == s[i]\<close> from the first element on, stops at the first equal one, and is left by
  the panic of a comparison.
\<close>

fun Index_error :: "any list \<Rightarrow> any \<Rightarrow> any + bool" where
  "Index_error [] v = Inr False"
| "Index_error (x # s) v =
     (case iface_eq v x of
        Inl e \<Rightarrow> Inl e
      | Inr True \<Rightarrow> Inr True
      | Inr False \<Rightarrow> Index_error s v)"

definition Contains_error :: "any slice \<Rightarrow> any \<Rightarrow> any + bool" where
  "Contains_error s v = Index_error (elems s) v"

section \<open>The Handler\<close>

record Handler =
  artefactTypes :: "rtype slice"
  errorTypes :: "any slice"

text \<open>
  How a call ends: it returns, or it leaves by a panic carrying a value. The callback
  \<open>handle\<close> is the caller's code; the model takes the way it ends as given.
\<close>

datatype outcome = Returns | Panics any

text \<open>
  What one call of \<^verbatim>\<open>With\<close> does: the arguments of its calls of \<open>handle\<close>, in order, and
  how the call of \<^verbatim>\<open>With\<close> ends.
\<close>

record run =
  invoked :: "any list"
  outcome :: outcome

text \<open>
  \<^verbatim>\<open>Handler.With\<close>. The argument \<open>lastMsg\<close> is what \<^verbatim>\<open>recover()\<close> returns: the nil
  interface when the enclosing function is not panicking, the payload otherwise.
\<close>

definition With :: "Handler \<Rightarrow> (any \<Rightarrow> outcome) \<Rightarrow> any \<Rightarrow> run" where
  "With h handle lastMsg =
     (if lastMsg \<noteq> NilIface then
        (if is_error lastMsg then
           (if Contains_Type (artefactTypes h) typeOfError then
              \<lparr>invoked = [lastMsg], outcome = handle lastMsg\<rparr>
            else
              (case Contains_error (errorTypes h) lastMsg of
                 Inl e \<Rightarrow> \<lparr>invoked = [], outcome = Panics e\<rparr>
               | Inr True \<Rightarrow> \<lparr>invoked = [lastMsg], outcome = handle lastMsg\<rparr>
               | Inr False \<Rightarrow> \<lparr>invoked = [], outcome = Panics lastMsg\<rparr>))
         else
           (case TypeOf lastMsg of
              Some typeOfLastMsg \<Rightarrow>
                (if Contains_Type (artefactTypes h) typeOfLastMsg then
                   \<lparr>invoked = [lastMsg], outcome = handle lastMsg\<rparr>
                 else \<lparr>invoked = [], outcome = Panics lastMsg\<rparr>)
            | None \<Rightarrow> \<lparr>invoked = [], outcome = Panics lastMsg\<rparr>))
      else \<lparr>invoked = [], outcome = Returns\<rparr>)"


definition Absorbed :: "(any \<Rightarrow> outcome) \<Rightarrow> any \<Rightarrow> run" where
  "Absorbed handle lastMsg = \<lparr>invoked = [lastMsg], outcome = handle lastMsg\<rparr>"


text \<open>
  \<^verbatim>\<open>Tackle\<close>: the body of the loop over the targets, then the loop from the two empty
  slices. Both type assertions are in comma-ok form, so none of them panics.
\<close>

definition Tackle_step :: "any \<Rightarrow> Handler \<Rightarrow> Handler" where
  "Tackle_step t h =
     (if is_error t then h\<lparr>errorTypes := append_elem (errorTypes h) t\<rparr>
      else (case as_Type t of
              Some artefactType \<Rightarrow>
                h\<lparr>artefactTypes := append_elem (artefactTypes h) artefactType\<rparr>
            | None \<Rightarrow> h))"

definition Tackle :: "any list \<Rightarrow> Handler" where
  "Tackle targets = fold Tackle_step targets \<lparr>artefactTypes = make0, errorTypes = make0\<rparr>"

section \<open>Values used as examples\<close>

text \<open>A callback that returns.\<close>

definition returning :: "any \<Rightarrow> outcome" where
  "returning artefact = Returns"

text \<open>
  \<^verbatim>\<open>errors.New(text)\<close>: a pointer to a fresh \<^verbatim>\<open>errors.errorString\<close>; the address stands
  for the allocation. Its method \<^verbatim>\<open>Error\<close> returns the text.
\<close>

definition errorString_ptr :: ctype where
  "errorString_ptr = CType ''*errors.errorString'' True True"

definition errors_New :: "nat \<Rightarrow> string \<Rightarrow> any" where
  "errors_New addr text = Val errorString_ptr (Pointer addr (Elems [Text text]))"


text \<open>
  \<^verbatim>\<open>type SliceErr []string\<close> with a method \<^verbatim>\<open>Error() string\<close>: an error whose dynamic
  type is not comparable.
\<close>

definition SliceErr :: ctype where
  "SliceErr = CType ''main.SliceErr'' True False"

definition sliceErr :: "string list \<Rightarrow> any" where
  "sliceErr ss = Val SliceErr (Elems (map Text ss))"

text \<open>The types \<^verbatim>\<open>string\<close> and \<^verbatim>\<open>int\<close>, and a defined type with the layout of \<^verbatim>\<open>int\<close>.\<close>

definition string_type :: ctype where
  "string_type = CType ''string'' False True"

definition int_type :: ctype where
  "int_type = CType ''int'' False True"

definition Celsius :: ctype where
  "Celsius = CType ''main.Celsius'' False True"

section \<open>Facts about the comparison and the search\<close>

text \<open>A comparison panics only for a payload of a type that is not comparable.\<close>

lemma iface_eq_panic:
  "iface_eq v x = Inl e \<Longrightarrow> \<exists>c d. v = Val c d \<and> \<not> comparable c \<and> e = uncomparable c"
  by (cases v; cases x) (auto split: if_splits)

lemma iface_eq_True_no_panic:
  "iface_eq v x = Inr True \<Longrightarrow> iface_eq v y \<noteq> Inl e"
  by (cases v; cases x; cases y) (auto split: if_splits)

lemma iface_eq_panic_unique:
  "iface_eq v x = Inl e \<Longrightarrow> iface_eq v y = Inl e' \<Longrightarrow> e' = e"
  by (cases v; cases x; cases y) (auto split: if_splits)

text \<open>
  The three results of the search, each in terms of the single comparisons. For one
  payload a comparison that panics and a comparison that succeeds exclude each other, so
  the position of the elements does not matter.
\<close>

lemma Index_error_Inl:
  "Index_error xs v = Inl e \<longleftrightarrow> (\<exists>x\<in>set xs. iface_eq v x = Inl e)"
proof (induction xs)
  case Nil
  show ?case by simp
next
  case (Cons y ys)
  show ?case
  proof (cases "iface_eq v y")
    case (Inl e')
    then show ?thesis
      using iface_eq_panic_unique [of v y e'] by (auto simp: Inl)
  next
    case (Inr b)
    then show ?thesis
      using Cons.IH iface_eq_True_no_panic [of v y] by (cases b) auto
  qed
qed

lemma Index_error_True:
  "Index_error xs v = Inr True \<longleftrightarrow> (\<exists>x\<in>set xs. iface_eq v x = Inr True)"
proof (induction xs)
  case Nil
  show ?case by simp
next
  case (Cons y ys)
  show ?case
  proof (cases "iface_eq v y")
    case (Inl e')
    then show ?thesis
      using iface_eq_True_no_panic [of v _ y e'] by auto
  next
    case (Inr b)
    then show ?thesis
      using Cons.IH by (cases b) auto
  qed
qed

lemma Index_error_False:
  "Index_error xs v = Inr False \<longleftrightarrow> (\<forall>x\<in>set xs. iface_eq v x = Inr False)"
  by (induction xs) (auto split: sum.splits bool.splits)

lemma Index_error_set:
  assumes "set xs = set ys"
  shows "Index_error xs v = Index_error ys v"
proof (cases "Index_error xs v")
  case (Inl e)
  then show ?thesis
    using assms Index_error_Inl [of xs v e] Index_error_Inl [of ys v e] by simp
next
  case (Inr b)
  then show ?thesis
    using assms Index_error_True [of xs v] Index_error_True [of ys v]
      Index_error_False [of xs v] Index_error_False [of ys v]
    by (cases b) simp_all
qed


section \<open>Normal exit\<close>

text \<open>
  C7. When the enclosing scope exits normally, \<^verbatim>\<open>recover()\<close> yields the nil interface;
  \<^verbatim>\<open>With\<close> then returns at once: it never calls \<open>handle\<close> and raises nothing, for every
  Handler and every callback.
\<close>

theorem With_normal_exit:
  "With h handle NilIface = \<lparr>invoked = [], outcome = Returns\<rparr>"
  by (simp add: With_def)

section \<open>Error payloads\<close>

text \<open>
  C1. For every Handler whose \<open>artefactTypes\<close> hold the descriptor of the interface type
  \<^verbatim>\<open>error\<close> and every payload that satisfies \<^verbatim>\<open>error\<close>, \<^verbatim>\<open>With\<close> calls
  \<open>handle\<close> on the payload, once, and raises nothing itself: it ends as the callback
  ends. The statement holds whatever \<open>errorTypes\<close> holds, also where the search of
  \<open>errorTypes\<close> would panic or fail: the test for the generic descriptor comes first.
\<close>

theorem With_generic_error_first:
  assumes "is_error lastMsg"
    and "typeOfError \<in> set (elems (artefactTypes h))"
  shows "With h handle lastMsg = \<lparr>invoked = [lastMsg], outcome = handle lastMsg\<rparr>"
proof -
  from assms(1) have "lastMsg \<noteq> NilIface" by auto
  with assms show ?thesis by (simp add: With_def Contains_Type_def)
qed

theorem With_generic_error_first_witness:
  "is_error (sliceErr [''a''])
   \<and> typeOfError \<in> set (elems (artefactTypes
        \<lparr>artefactTypes = Some [typeOfError], errorTypes = Some [sliceErr [''b'']]\<rparr>))
   \<and> Contains_error (Some [sliceErr [''b'']]) (sliceErr [''a'']) = Inl (uncomparable SliceErr)
   \<and> With \<lparr>artefactTypes = Some [typeOfError], errorTypes = Some [sliceErr [''b'']]\<rparr>
        returning (sliceErr [''a''])
      = \<lparr>invoked = [sliceErr [''a'']], outcome = Returns\<rparr>"
  using With_generic_error_first
    [of "sliceErr [''a'']"
        "\<lparr>artefactTypes = Some [typeOfError], errorTypes = Some [sliceErr [''b'']]\<rparr>" returning]
  by (simp add: sliceErr_def SliceErr_def returning_def Contains_error_def)







section \<open>Payloads that are not errors\<close>

text \<open>
  C3. For every payload in flight that does not satisfy \<^verbatim>\<open>error\<close>, with \<open>t\<close> the
  descriptor of its dynamic type: \<^verbatim>\<open>With\<close> calls \<open>handle\<close> on the payload and absorbs
  exactly when \<open>artefactTypes\<close> holds \<open>t\<close>, and re-raises the payload otherwise; a
  target describing another type, even one of the same layout, does not absorb it.
\<close>

theorem With_non_error_by_type:
  assumes "lastMsg \<noteq> NilIface"
    and "\<not> is_error lastMsg"
    and "TypeOf lastMsg = Some t"
  shows "With h handle lastMsg =
    (if t \<in> set (elems (artefactTypes h))
     then \<lparr>invoked = [lastMsg], outcome = handle lastMsg\<rparr>
     else \<lparr>invoked = [], outcome = Panics lastMsg\<rparr>)"
  using assms by (simp add: With_def Contains_Type_def)

theorem With_non_error_by_type_witness:
  "Val Celsius (Scalar 7) \<noteq> NilIface \<and> \<not> is_error (Val Celsius (Scalar 7))
   \<and> TypeOf (Val Celsius (Scalar 7)) = Some (Concrete Celsius)
   \<and> With \<lparr>artefactTypes = Some [Concrete Celsius], errorTypes = Some []\<rparr> returning
        (Val Celsius (Scalar 7))
      = \<lparr>invoked = [Val Celsius (Scalar 7)], outcome = Returns\<rparr>
   \<and> Val int_type (Scalar 7) \<noteq> NilIface \<and> \<not> is_error (Val int_type (Scalar 7))
   \<and> TypeOf (Val int_type (Scalar 7)) = Some (Concrete int_type)
   \<and> With \<lparr>artefactTypes = Some [Concrete Celsius], errorTypes = Some []\<rparr> returning
        (Val int_type (Scalar 7))
      = \<lparr>invoked = [], outcome = Panics (Val int_type (Scalar 7))\<rparr>"
  using With_non_error_by_type
    [of "Val Celsius (Scalar 7)" "Concrete Celsius"
        "\<lparr>artefactTypes = Some [Concrete Celsius], errorTypes = Some []\<rparr>" returning]
    With_non_error_by_type
    [of "Val int_type (Scalar 7)" "Concrete int_type"
        "\<lparr>artefactTypes = Some [Concrete Celsius], errorTypes = Some []\<rparr>" returning]
  by (simp add: Celsius_def int_type_def returning_def)

section \<open>No match\<close>




section \<open>The ends of one call\<close>




section \<open>Registration\<close>




text \<open>
  C10. The Handler of \<^verbatim>\<open>Tackle()\<close>, built from no target, absorbs nothing: for every
  payload in flight \<^verbatim>\<open>With\<close> re-raises the payload and does not call \<open>handle\<close>.
\<close>

theorem Tackle_empty_absorbs_nothing:
  assumes "lastMsg \<noteq> NilIface"
  shows "With (Tackle []) handle lastMsg = \<lparr>invoked = [], outcome = Panics lastMsg\<rparr>"
  using assms
  by (cases lastMsg)
     (simp_all add: With_def Tackle_def make0_def Contains_Type_def Contains_error_def)

theorem Tackle_empty_absorbs_nothing_witness:
  "errors_New 16 ''boom'' \<noteq> NilIface
   \<and> With (Tackle []) returning (errors_New 16 ''boom'')
       = \<lparr>invoked = [], outcome = Panics (errors_New 16 ''boom'')\<rparr>
   \<and> Val string_type (Text ''boom'') \<noteq> NilIface
   \<and> With (Tackle []) returning (Val string_type (Text ''boom''))
       = \<lparr>invoked = [], outcome = Panics (Val string_type (Text ''boom''))\<rparr>"
  using Tackle_empty_absorbs_nothing [of "errors_New 16 ''boom''" returning]
    Tackle_empty_absorbs_nothing [of "Val string_type (Text ''boom'')" returning]
  by (simp add: errors_New_def)

section \<open>Order of the targets\<close>

text \<open>
  C9. Two Handlers whose \<open>artefactTypes\<close> are permutations of each other and whose
  \<open>errorTypes\<close> are permutations of each other behave alike: for every callback and
  every result of \<^verbatim>\<open>recover()\<close>, \<^verbatim>\<open>With\<close> makes the same calls of \<open>handle\<close> and
  ends the same way.
\<close>

theorem With_order_irrelevant:
  assumes "mset (elems (artefactTypes h)) = mset (elems (artefactTypes h'))"
    and "mset (elems (errorTypes h)) = mset (elems (errorTypes h'))"
  shows "With h handle lastMsg = With h' handle lastMsg"
proof -
  have types: "set (elems (artefactTypes h)) = set (elems (artefactTypes h'))"
    using assms(1) by (rule mset_eq_setD)
  have "set (elems (errorTypes h)) = set (elems (errorTypes h'))"
    using assms(2) by (rule mset_eq_setD)
  then have errs: "Contains_error (errorTypes h) lastMsg = Contains_error (errorTypes h') lastMsg"
    unfolding Contains_error_def by (rule Index_error_set)
  have tys: "Contains_Type (artefactTypes h) = Contains_Type (artefactTypes h')"
    by (rule ext) (simp add: Contains_Type_def types)
  show ?thesis
    unfolding With_def tys errs by (rule refl)
qed

theorem With_order_irrelevant_witness:
  "mset (elems (artefactTypes
      \<lparr>artefactTypes = Some [Concrete string_type, Concrete int_type],
       errorTypes = Some [errors_New 16 ''a'', errors_New 32 ''b'']\<rparr>))
   = mset (elems (artefactTypes
      \<lparr>artefactTypes = Some [Concrete int_type, Concrete string_type],
       errorTypes = Some [errors_New 32 ''b'', errors_New 16 ''a'']\<rparr>))
   \<and> mset (elems (errorTypes
      \<lparr>artefactTypes = Some [Concrete string_type, Concrete int_type],
       errorTypes = Some [errors_New 16 ''a'', errors_New 32 ''b'']\<rparr>))
   = mset (elems (errorTypes
      \<lparr>artefactTypes = Some [Concrete int_type, Concrete string_type],
       errorTypes = Some [errors_New 32 ''b'', errors_New 16 ''a'']\<rparr>))
   \<and> With \<lparr>artefactTypes = Some [Concrete string_type, Concrete int_type],
            errorTypes = Some [errors_New 16 ''a'', errors_New 32 ''b'']\<rparr>
        returning (errors_New 32 ''b'')
     = With \<lparr>artefactTypes = Some [Concrete int_type, Concrete string_type],
            errorTypes = Some [errors_New 32 ''b'', errors_New 16 ''a'']\<rparr>
        returning (errors_New 32 ''b'')
   \<and> With \<lparr>artefactTypes = Some [Concrete int_type, Concrete string_type],
            errorTypes = Some [errors_New 32 ''b'', errors_New 16 ''a'']\<rparr>
        returning (errors_New 32 ''b'')
     = Absorbed returning (errors_New 32 ''b'')"
proof -
  let ?h = "\<lparr>artefactTypes = Some [Concrete string_type, Concrete int_type],
             errorTypes = Some [errors_New 16 ''a'', errors_New 32 ''b'']\<rparr>"
  let ?h' = "\<lparr>artefactTypes = Some [Concrete int_type, Concrete string_type],
              errorTypes = Some [errors_New 32 ''b'', errors_New 16 ''a'']\<rparr>"
  have types: "mset (elems (artefactTypes ?h)) = mset (elems (artefactTypes ?h'))"
    and errs: "mset (elems (errorTypes ?h)) = mset (elems (errorTypes ?h'))"
    by (simp_all add: add.commute)
  have same: "With ?h returning (errors_New 32 ''b'') = With ?h' returning (errors_New 32 ''b'')"
    using types errs by (rule With_order_irrelevant)
  have result: "With ?h' returning (errors_New 32 ''b'') = Absorbed returning (errors_New 32 ''b'')"
    by (simp add: With_def Contains_Type_def Contains_error_def Absorbed_def errors_New_def
        errorString_ptr_def typeOfError_def)
  from types errs same result show ?thesis by simp
qed

end
